theory Spec2Isabelle
  imports Complex_Main "HOL-Library.AList" "HOL-Library.Sublist"
begin

section \<open>JavaScript values\<close>

text \<open>
  The test harness is JavaScript, and several of its results are not booleans but whatever
  value an operator such as \<open>&&\<close> or \<open>||\<close> hands back. The primitive values that can
  occur are modelled as they are. Numbers are restricted to integers (no header value or
  flag of the harness is a fraction, NaN or an infinity). A string is a list of characters;
  header names, status words and markers are ASCII.
\<close>

datatype jsval = JUndefined | JNull | JBool bool | JNum int | JStr string

text \<open>
  An object is the list of its own enumerable string-keyed properties, in the order
  \<open>Object.keys\<close> reports them. Property values are primitive.
\<close>

type_synonym jsobj = "(string \<times> jsval) list"

text \<open>What a caller may pass where a headers object is expected.\<close>

datatype jsarg = Prim jsval | Obj jsobj

fun truthy :: "jsval \<Rightarrow> bool" where
  "truthy JUndefined = False"
| "truthy JNull = False"
| "truthy (JBool b) = b"
| "truthy (JNum n) = (n \<noteq> 0)"
| "truthy (JStr s) = (s \<noteq> [])"

fun typeof :: "jsval \<Rightarrow> string" where
  "typeof JUndefined = ''undefined''"
| "typeof JNull = ''object''"
| "typeof (JBool b) = ''boolean''"
| "typeof (JNum n) = ''number''"
| "typeof (JStr s) = ''string''"

fun truthy_arg :: "jsarg \<Rightarrow> bool" where
  "truthy_arg (Prim p) = truthy p"
| "truthy_arg (Obj ps) = True"

fun typeof_arg :: "jsarg \<Rightarrow> string" where
  "typeof_arg (Prim p) = typeof p"
| "typeof_arg (Obj ps) = ''object''"

text \<open>\<open>a && b\<close> and \<open>a || b\<close> return one of their operands, not a boolean.\<close>

definition js_and :: "jsval \<Rightarrow> jsval \<Rightarrow> jsval" where
  "js_and a b = (if truthy a then b else a)"

definition js_or :: "jsval \<Rightarrow> jsval \<Rightarrow> jsval" where
  "js_or a b = (if truthy a then a else b)"

text \<open>
  Reading a property: an absent key reads as \<open>undefined\<close>. The objects read this way
  are the interpreter's normalised header object and its result objects; the keys read
  from them (\<open>cf-cache-status\<close>, \<open>x-cache\<close>, \<open>x-cache-status\<close>, \<open>hit\<close>, \<open>status\<close>, ...)
  are not properties of \<open>Object.prototype\<close>, so only own properties answer.
\<close>

definition js_get :: "jsobj \<Rightarrow> string \<Rightarrow> jsval" where
  "js_get obj k = (case map_of obj k of None \<Rightarrow> JUndefined | Some v \<Rightarrow> v)"

text \<open>
  Assigning \<open>obj[k] = v\<close> on an object created by \<open>{}\<close>: an existing key keeps its
  place and takes the new value, a new key goes to the end. The key \<open>__proto__\<close> is the
  accessor of \<open>Object.prototype\<close>; assigning a primitive to it creates no own property.
\<close>

definition js_assign :: "jsobj \<Rightarrow> string \<Rightarrow> jsval \<Rightarrow> jsobj" where
  "js_assign obj k v = (if k = ''__proto__'' then obj else AList.update k v obj)"

text \<open>
  \<open>String.prototype.toLowerCase\<close>, on the ASCII letters. Header names are ASCII tokens;
  the case mappings of other scripts are not modelled and such characters are left alone.
\<close>

definition lower_char :: "char \<Rightarrow> char" where
  "lower_char c =
     (case map_of (zip ''ABCDEFGHIJKLMNOPQRSTUVWXYZ'' ''abcdefghijklmnopqrstuvwxyz'') c of
        Some l \<Rightarrow> l
      | None \<Rightarrow> c)"

definition toLowerCase :: "string \<Rightarrow> string" where
  "toLowerCase s = map lower_char s"

text \<open>\<open>String.prototype.includes\<close>: does the needle occur as a contiguous run?\<close>

fun js_includes :: "string \<Rightarrow> string \<Rightarrow> bool" where
  "js_includes [] needle = (needle = [])"
| "js_includes (c # cs) needle = (prefix needle (c # cs) \<or> js_includes cs needle)"

text \<open>
  The optional call \<open>x?.includes(needle)\<close>: \<open>undefined\<close> when \<open>x\<close> is \<open>undefined\<close> or
  \<open>null\<close>, the search result when \<open>x\<close> is a string. A number or a boolean has no
  \<open>includes\<close> method, so the call raises a TypeError; \<open>Inl\<close> carries its message, which
  names the variable \<open>var\<close> the call was made on.
\<close>

fun optional_includes :: "string \<Rightarrow> jsval \<Rightarrow> string \<Rightarrow> string + jsval" where
  "optional_includes var JUndefined needle = Inr JUndefined"
| "optional_includes var JNull needle = Inr JUndefined"
| "optional_includes var (JStr s) needle = Inr (JBool (js_includes s needle))"
| "optional_includes var (JBool b) needle = Inl (var @ ''?.includes is not a function'')"
| "optional_includes var (JNum n) needle = Inl (var @ ''?.includes is not a function'')"

section \<open>Cache-Status Interpreter (TestUtils)\<close>

text \<open>
  \<^verbatim>\<open>
  static normalizeHeaders(rawHeaders) {
    const normalized = {};
    if (!rawHeaders || typeof rawHeaders !== 'object') { return normalized; }
    Object.keys(rawHeaders).forEach(key => {
      normalized[key.toLowerCase()] = rawHeaders[key];
    });
    return normalized;
  }
  \<close>
\<close>

definition not_an_object :: "jsarg \<Rightarrow> bool" where
  "not_an_object rawHeaders = (\<not> truthy_arg rawHeaders \<or> typeof_arg rawHeaders \<noteq> ''object'')"

text \<open>
  \<open>Object.keys\<close> and the read \<open>rawHeaders[key]\<close>. Both are reached only behind the
  guard, that is for objects; the equations for primitives are never used.
\<close>

fun object_keys :: "jsarg \<Rightarrow> string list" where
  "object_keys (Obj raw) = map fst raw"
| "object_keys (Prim p) = []"

fun arg_get :: "jsarg \<Rightarrow> string \<Rightarrow> jsval" where
  "arg_get (Obj raw) key = js_get raw key"
| "arg_get (Prim p) key = JUndefined"

definition normalizeHeaders :: "jsarg \<Rightarrow> jsobj" where
  "normalizeHeaders rawHeaders =
     (if not_an_object rawHeaders then []
      else fold (\<lambda>key normalized. js_assign normalized (toLowerCase key) (arg_get rawHeaders key))
                (object_keys rawHeaders) [])"

text \<open>
  The interpreter. Each branch builds its object literal field by field; a TypeError raised
  while a field is computed is caught by the surrounding \<open>try\<close> and turned into the
  \<open>PARSE_ERROR\<close> object.
\<close>

definition parse_error :: "string \<Rightarrow> jsobj" where
  "parse_error msg = [(''status'', JStr ''PARSE_ERROR''), (''raw'', JNull), (''error'', JStr msg)]"

definition parseCDNCacheStatus :: "jsarg \<Rightarrow> string \<Rightarrow> jsobj" where
  "parseCDNCacheStatus rawHeaders cdn =
     (if not_an_object rawHeaders then
        [(''status'', JStr ''INVALID_HEADERS''), (''raw'', JNull),
         (''error'', JStr ''Headers not provided'')]
      else
        let headers = normalizeHeaders rawHeaders in
        if cdn = ''cloudflare'' then
          (let cfStatus = js_get headers ''cf-cache-status'' in
           [(''status'', js_or cfStatus (JStr ''MISSING_HEADER'')),
            (''raw'', cfStatus),
            (''hit'', JBool (cfStatus = JStr ''HIT'')),
            (''miss'', JBool (cfStatus = JStr ''MISS'')),
            (''dynamic'', JBool (cfStatus = JStr ''DYNAMIC''))])
        else if cdn = ''fastly'' then
          (let xCache = js_get headers ''x-cache'' in
           case optional_includes ''xCache'' xCache ''HIT'' of
             Inl msg \<Rightarrow> parse_error msg
           | Inr h \<Rightarrow>
              (case optional_includes ''xCache'' xCache ''MISS'' of
                 Inl msg \<Rightarrow> parse_error msg
               | Inr m \<Rightarrow>
                  [(''status'', js_or xCache (JStr ''MISSING_HEADER'')),
                   (''raw'', xCache),
                   (''hit'', js_or h (JBool False)),
                   (''miss'', js_or m (JBool False)),
                   (''unknown'', JBool (\<not> truthy xCache))]))
        else if cdn = ''cloudfront'' then
          (let cfCache = js_get headers ''x-cache'' in
           case optional_includes ''cfCache'' cfCache ''Hit'' of
             Inl msg \<Rightarrow> parse_error msg
           | Inr h \<Rightarrow>
              (case optional_includes ''cfCache'' cfCache ''Miss'' of
                 Inl msg \<Rightarrow> parse_error msg
               | Inr m \<Rightarrow>
                  (case optional_includes ''cfCache'' cfCache ''Error'' of
                     Inl msg \<Rightarrow> parse_error msg
                   | Inr e \<Rightarrow>
                      [(''status'', js_or cfCache (JStr ''MISSING_HEADER'')),
                       (''raw'', cfCache),
                       (''hit'', js_or h (JBool False)),
                       (''miss'', js_or m (JBool False)),
                       (''error'', js_or e (JBool False))])))
        else if cdn = ''local'' then
          (let localStatus = js_get headers ''x-cache-status'' in
           [(''status'', js_or localStatus (JStr ''MISSING_HEADER'')),
            (''raw'', localStatus),
            (''hit'', JBool (localStatus = JStr ''HIT'')),
            (''miss'', JBool (localStatus = JStr ''MISS'')),
            (''bypass'', JBool (localStatus = JStr ''BYPASS''))])
        else
          [(''status'', JStr ''UNSUPPORTED_CDN''), (''raw'', JNull),
           (''error'', JStr (''Unsupported CDN: '' @ cdn))])"

section \<open>Trial classification (attack matrix test)\<close>

text \<open>
  The victim marker is what \<open>extractMarkerFromBody\<close> returned: \<open>null\<close> (here \<open>None\<close>) or
  a string. Every return of that function hands back a value it has just tested to be
  truthy, so an extracted marker is never the empty string.
\<close>

definition marker_value :: "string option \<Rightarrow> jsval" where
  "marker_value victimMarker = (case victimMarker of None \<Rightarrow> JNull | Some m \<Rightarrow> JStr m)"

definition extracted_marker :: "string option \<Rightarrow> bool" where
  "extracted_marker victimMarker = (victimMarker \<noteq> Some [])"

text \<open>
  \<^verbatim>\<open>const containsVictimData = victimMarker && attackerBody.includes(victimMarker);\<close>
  The right operand is evaluated only when the marker is truthy.
\<close>

definition containsVictimData :: "string option \<Rightarrow> string \<Rightarrow> jsval" where
  "containsVictimData victimMarker attackerBody =
     (case victimMarker of
        None \<Rightarrow> JNull
      | Some m \<Rightarrow> if truthy (JStr m) then JBool (js_includes attackerBody m) else JStr m)"

text \<open>\<^verbatim>\<open>const attackSuccess = cacheStatus.hit && containsVictimData;\<close>\<close>

definition attackSuccess :: "jsobj \<Rightarrow> jsval \<Rightarrow> jsval" where
  "attackSuccess cacheStatus cvd = js_and (js_get cacheStatus ''hit'') cvd"

text \<open>
  The \<open>attack_outcome\<close> object of the trial record. The safety issues are computed by
  \<open>validateResponseSafety\<close> and only carried along here; \<open>time_to_cache_ms\<close> is the
  configured propagation delay \<open>TEST_CONFIG.safety.trialDelayMs\<close>.
\<close>

record attack_outcome =
  success :: jsval
  cache_hit :: jsval
  victim_data_retrieved :: jsval
  victim_marker :: jsval
  time_to_cache_ms :: int
  safety_issues :: "string list"

definition trialDelayMs :: int where
  "trialDelayMs = 3000"

definition classify_trial ::
  "jsarg \<Rightarrow> string \<Rightarrow> string option \<Rightarrow> string \<Rightarrow> string list \<Rightarrow> attack_outcome" where
  "classify_trial attackerHeaders cdn victimMarker attackerBody safetyIssues =
     (let cacheStatus = parseCDNCacheStatus attackerHeaders cdn;
          cvd = containsVictimData victimMarker attackerBody
      in \<lparr> success = attackSuccess cacheStatus cvd,
           cache_hit = js_get cacheStatus ''hit'',
           victim_data_retrieved = cvd,
           victim_marker = marker_value victimMarker,
           time_to_cache_ms = trialDelayMs,
           safety_issues = safetyIssues \<rparr>)"

text \<open>
  The assertions that close a trial. \<open>expect(x).toBe(y)\<close> compares with \<open>Object.is\<close>, which
  on these primitives is equality of values; the first failing expectation ends the test
  with its message.
  \<^verbatim>\<open>
  if (strategy === 'proper') {
    expect(attackSuccess, 'Attack should not succeed with proper security headers').toBe(false);
  }
  expect(cacheStatus.status, 'Cache status should be valid').not.toBe('PARSE_ERROR');
  expect(cacheStatus.status, 'CDN should be supported').not.toBe('UNSUPPORTED_CDN');
  \<close>
\<close>

datatype test_verdict = Passed | Failed string

definition trial_assertions :: "string \<Rightarrow> jsval \<Rightarrow> jsobj \<Rightarrow> test_verdict" where
  "trial_assertions strategy attack_success cacheStatus =
     (if strategy = ''proper'' \<and> attack_success \<noteq> JBool False then
        Failed ''Attack should not succeed with proper security headers''
      else if js_get cacheStatus ''status'' = JStr ''PARSE_ERROR'' then
        Failed ''Cache status should be valid''
      else if js_get cacheStatus ''status'' = JStr ''UNSUPPORTED_CDN'' then
        Failed ''CDN should be supported''
      else Passed)"

section \<open>Safety monitor (AnomalyDetector)\<close>

text \<open>
  The checks are SQL queries over the persisted tables. A table is the list of its rows,
  with the columns the queries read; a timestamp is a number of microseconds (the
  resolution of \<open>TIMESTAMPTZ\<close>), and \<open>now\<close> is the value of \<open>NOW()\<close> when the query runs.
\<close>

definition minute :: int where
  "minute = 60000000"

definition hour :: int where
  "hour = 60 * minute"

text \<open>Decimal rendering of a count, as a template literal does it.\<close>

fun decimal :: "nat \<Rightarrow> string" where
  "decimal n =
     (if n < 10 then [''0123456789'' ! n]
      else decimal (n div 10) @ [''0123456789'' ! (n mod 10)])"

datatype details = Count nat | Domains "(string \<times> nat) list"

record anomaly =
  anomaly_type :: string
  severity :: string
  message :: string
  anomaly_details :: details

text \<open>
  A row of \<open>experiments\<close>. \<open>(attack_outcome->>'success')::boolean\<close> is SQL \<open>NULL\<close> (here
  \<open>None\<close>) when the stored JSON value is \<open>null\<close>, and the stored boolean otherwise; a
  comparison with \<open>NULL\<close> does not select the row.
\<close>

record experiment_row =
  exp_timestamp :: int
  origin_header_strategy :: string
  outcome_success :: "bool option"

text \<open>
  \<^verbatim>\<open>
  SELECT COUNT(*) as count FROM experiments
  WHERE timestamp > NOW() - INTERVAL '1 hour'
    AND origin_header_strategy = 'proper'
    AND (attack_outcome->>'success')::boolean = true
  \<close>
\<close>

definition unexpected_success_row :: "int \<Rightarrow> experiment_row \<Rightarrow> bool" where
  "unexpected_success_row now r =
     (exp_timestamp r > now - hour \<and> origin_header_strategy r = ''proper''
      \<and> outcome_success r = Some True)"

definition checkUnexpectedSuccesses :: "int \<Rightarrow> experiment_row list \<Rightarrow> anomaly option" where
  "checkUnexpectedSuccesses now experiments =
     (let unexpectedSuccesses = length (filter (unexpected_success_row now) experiments) in
      if unexpectedSuccesses > 0 then
        Some \<lparr> anomaly_type = ''UNEXPECTED_SUCCESS'',
               severity = ''MEDIUM'',
               message = ''Unexpected successful attacks with proper security headers: ''
                           @ decimal unexpectedSuccesses,
               anomaly_details = Count unexpectedSuccesses \<rparr>
      else None)"

text \<open>
  A row of \<open>origin_logs\<close>. \<open>headers->>'host'\<close> is \<open>NULL\<close> (here \<open>None\<close>) when the logged
  request carried no host header; \<open>NULL NOT IN (...)\<close> does not select the row.
  \<^verbatim>\<open>
  SELECT DISTINCT headers->>'host' as host, COUNT(*) as count FROM origin_logs
  WHERE timestamp > NOW() - INTERVAL '5 minutes'
    AND headers->>'host' NOT IN ('cdn-simulator.local', 'localhost', '127.0.0.1',
          'cf-test.yourdomain.com', 'fastly-test.yourdomain.com', 'aws-test.yourdomain.com')
  GROUP BY headers->>'host'
  HAVING COUNT(*) > 1
  \<close>
  The query leaves the order of its groups open; the model lists them by first appearance.
\<close>

record origin_log =
  log_timestamp :: int
  host :: "string option"

definition allowlist :: "string list" where
  "allowlist = [''cdn-simulator.local'', ''localhost'', ''127.0.0.1'',
                ''cf-test.yourdomain.com'', ''fastly-test.yourdomain.com'',
                ''aws-test.yourdomain.com'']"

definition external_hosts :: "int \<Rightarrow> origin_log list \<Rightarrow> string list" where
  "external_hosts now logs =
     concat (map (\<lambda>r. case host r of
                         None \<Rightarrow> []
                       | Some h \<Rightarrow>
                           if log_timestamp r > now - 5 * minute \<and> h \<notin> set allowlist
                           then [h] else [])
                 logs)"

definition external_domain_rows :: "int \<Rightarrow> origin_log list \<Rightarrow> (string \<times> nat) list" where
  "external_domain_rows now logs =
     (let hosts = external_hosts now logs in
      filter (\<lambda>(h, c). c > 1) (map (\<lambda>h. (h, count_list hosts h)) (remdups hosts)))"

definition checkExternalDomains :: "int \<Rightarrow> origin_log list \<Rightarrow> anomaly option" where
  "checkExternalDomains now logs =
     (let rows = external_domain_rows now logs in
      if length rows > 0 then
        Some \<lparr> anomaly_type = ''EXTERNAL_DOMAIN_CONTACT'',
               severity = ''CRITICAL'',
               message = ''Requests to external domains detected'',
               anomaly_details = Domains rows \<rparr>
      else None)"

section \<open>Scenario validation (config.js)\<close>

definition cdns :: "string list" where
  "cdns = [''cloudflare'', ''fastly'', ''cloudfront'', ''local'']"

definition browsers :: "string list" where
  "browsers = [''chromium'', ''firefox'', ''webkit'']"

definition attacks :: "string list" where
  "attacks = [''t1-path-sculpting'', ''t2-header-manipulation'', ''t4-scope-misconfig'']"

definition originStrategies :: "string list" where
  "originStrategies = [''proper'', ''misconfigured'', ''missing'', ''conflicting'']"

text \<open>
  \<open>TEST_CONFIG.cdns\<close> and \<open>TEST_CONFIG.attacks\<close> are object literals, and the validation
  reads them with \<open>TEST_CONFIG.cdns[cdn]\<close>. Such a read also answers for the properties
  every object literal inherits from \<open>Object.prototype\<close>; each of those is a function or
  (for \<open>__proto__\<close>) the prototype object, hence truthy, as are the configuration objects
  stored under the own keys.
\<close>

definition object_prototype_properties :: "string list" where
  "object_prototype_properties =
     [''constructor'', ''__defineGetter__'', ''__defineSetter__'', ''hasOwnProperty'',
      ''__lookupGetter__'', ''__lookupSetter__'', ''isPrototypeOf'', ''propertyIsEnumerable'',
      ''toString'', ''valueOf'', ''__proto__'', ''toLocaleString'']"

definition property_truthy :: "string list \<Rightarrow> string \<Rightarrow> bool" where
  "property_truthy own_keys k = (k \<in> set own_keys \<or> k \<in> set object_prototype_properties)"

text \<open>\<open>Array.prototype.join\<close>.\<close>

fun join :: "string \<Rightarrow> string list \<Rightarrow> string" where
  "join sep [] = []"
| "join sep [x] = x"
| "join sep (x # y # ys) = x @ sep @ join sep (y # ys)"

definition newline :: string where
  "newline = [CHR 0x0A]"

text \<open>
  \<open>validateTestParams\<close> collects one message per rejected dimension and throws when there
  is any; \<open>Inl\<close> carries the message of the thrown error, \<open>Inr True\<close> is the normal return.
\<close>

definition validation_errors :: "string \<Rightarrow> string \<Rightarrow> string \<Rightarrow> string \<Rightarrow> string list" where
  "validation_errors cdn browser attack strategy =
     (if \<not> property_truthy cdns cdn
      then [''Invalid CDN: '' @ cdn @ ''. Must be one of: '' @ join '', '' cdns] else [])
     @ (if browser \<notin> set browsers
        then [''Invalid browser: '' @ browser @ ''. Must be one of: '' @ join '', '' browsers]
        else [])
     @ (if \<not> property_truthy attacks attack
        then [''Invalid attack: '' @ attack @ ''. Must be one of: '' @ join '', '' attacks]
        else [])
     @ (if strategy \<notin> set originStrategies
        then [''Invalid strategy: '' @ strategy @ ''. Must be one of: ''
                @ join '', '' originStrategies]
        else [])"

definition validateTestParams :: "string \<Rightarrow> string \<Rightarrow> string \<Rightarrow> string \<Rightarrow> string + bool" where
  "validateTestParams cdn browser attack strategy =
     (let errors = validation_errors cdn browser attack strategy in
      if length errors > 0
      then Inl (''Test parameter validation failed:'' @ newline @ join newline errors)
      else Inr True)"

section \<open>Statistical engine: p-value lookup\<close>

text \<open>
  The arguments are JavaScript numbers: a real, an infinity or NaN (the chi-square sum is
  NaN when an expected count is zero). Every comparison with NaN is false. The thresholds
  and the returned values are written as the decimals of the source.
\<close>

datatype jsnum = NaN | NegInf | Fin real | PosInf

fun js_gt :: "jsnum \<Rightarrow> real \<Rightarrow> bool" where
  "js_gt NaN c = False"
| "js_gt NegInf c = False"
| "js_gt (Fin x) c = (x > c)"
| "js_gt PosInf c = True"

fun js_le :: "jsnum \<Rightarrow> jsnum \<Rightarrow> bool" where
  "js_le NaN y = False"
| "js_le x NaN = False"
| "js_le NegInf y = True"
| "js_le x PosInf = True"
| "js_le (Fin x) (Fin y) = (x \<le> y)"
| "js_le PosInf y = False"
| "js_le x NegInf = False"

definition calculatePValue :: "jsnum \<Rightarrow> jsnum \<Rightarrow> real" where
  "calculatePValue chiSquare df =
     (if js_gt chiSquare 10.828 \<and> df = Fin 1 then 0.001
      else if js_gt chiSquare 6.635 \<and> df = Fin 1 then 0.01
      else if js_gt chiSquare 3.841 \<and> df = Fin 1 then 0.05
      else if js_gt chiSquare 2.706 \<and> df = Fin 1 then 0.10
      else 0.20)"

section \<open>Vocabulary of the properties\<close>

text \<open>A header object has no two keys that differ only in case.\<close>

definition ci_distinct :: "jsobj \<Rightarrow> bool" where
  "ci_distinct raw = distinct (map (toLowerCase \<circ> fst) raw)"

text \<open>The same header object with every key lowercased.\<close>

definition lowercase_keys :: "jsobj \<Rightarrow> jsobj" where
  "lowercase_keys raw = map (\<lambda>(k, v). (toLowerCase k, v)) raw"

text \<open>
  The rule table of the interpreter as the specification gives it: vendor, signal header,
  how the value is matched, and the strings that mean HIT and MISS.
\<close>

datatype match_rule = Exact | Contains

fun matches :: "match_rule \<Rightarrow> string \<Rightarrow> string \<Rightarrow> bool" where
  "matches Exact pattern v = (v = pattern)"
| "matches Contains pattern v = js_includes v pattern"

definition spec_rule_table :: "(string \<times> string \<times> match_rule \<times> string \<times> string) list" where
  "spec_rule_table =
     [(''cloudflare'', ''cf-cache-status'', Exact, ''HIT'', ''MISS''),
      (''fastly'', ''x-cache'', Contains, ''HIT'', ''MISS''),
      (''cloudfront'', ''x-cache'', Contains, ''Hit'', ''Miss''),
      (''local'', ''x-cache-status'', Exact, ''HIT'', ''MISS'')]"

section \<open>Basic facts\<close>

lemma not_an_object_Prim: "not_an_object (Prim p)"
  by (cases p) (simp_all add: not_an_object_def)

lemma not_an_object_Obj: "\<not> not_an_object (Obj raw)"
  by (simp add: not_an_object_def)

lemma lower_char_idem: "lower_char (lower_char c) = lower_char c"
  by (simp add: lower_char_def)

lemma toLowerCase_idem: "toLowerCase (toLowerCase s) = toLowerCase s"
  by (simp add: toLowerCase_def lower_char_idem)

lemma js_includes_sublist: "js_includes s needle = sublist needle s"
  by (induction s) (simp_all add: sublist_Cons_right)

subsection \<open>Reading the normalised headers\<close>

lemma js_get_assign:
  "js_get (js_assign obj k v) k' = (if k = k' \<and> k \<noteq> ''__proto__'' then v else js_get obj k')"
  by (simp add: js_get_def js_assign_def update_conv')

text \<open>A key that no raw key lowercases to keeps the value it had before the loop.\<close>

lemma fold_assign_other:
  "\<forall>key \<in> set ks. toLowerCase key \<noteq> k' \<Longrightarrow>
   js_get (fold (\<lambda>key normalized. js_assign normalized (toLowerCase key) (f key)) ks acc) k'
     = js_get acc k'"
  by (induction ks arbitrary: acc) (simp_all add: js_get_assign)

text \<open>Without case-insensitive duplicates, each raw key delivers its own value.\<close>

lemma fold_assign_hit:
  "distinct (map toLowerCase ks) \<Longrightarrow> key \<in> set ks \<Longrightarrow> toLowerCase key \<noteq> ''__proto__'' \<Longrightarrow>
   js_get (fold (\<lambda>key normalized. js_assign normalized (toLowerCase key) (f key)) ks acc)
          (toLowerCase key) = f key"
proof (induction ks arbitrary: acc)
  case Nil
  then show ?case by simp
next
  case (Cons a ks)
  show ?case
  proof (cases "key = a")
    case True
    from Cons.prems(1) have "toLowerCase a \<notin> toLowerCase ` set ks" by simp
    then have "\<forall>k \<in> set ks. toLowerCase k \<noteq> toLowerCase a" by (metis imageI)
    with True Cons.prems(3) show ?thesis
      by (simp add: fold_assign_other js_get_assign)
  next
    case False
    with Cons show ?thesis by simp
  qed
qed

lemma ci_distinct_keys: "ci_distinct raw \<Longrightarrow> distinct (map fst raw)"
  unfolding ci_distinct_def by (metis distinct_map map_map)

lemma normalized_absent:
  assumes "\<forall>(k, v) \<in> set raw. toLowerCase k \<noteq> h"
  shows "js_get (normalizeHeaders (Obj raw)) h = JUndefined"
proof -
  from assms have "\<forall>key \<in> set (map fst raw). toLowerCase key \<noteq> h" by auto
  then have "js_get (fold (\<lambda>key normalized. js_assign normalized (toLowerCase key) (js_get raw key))
                          (map fst raw) []) h = js_get [] h"
    by (rule fold_assign_other)
  then show ?thesis
    by (simp add: normalizeHeaders_def not_an_object_Obj js_get_def)
qed

lemma normalized_present:
  assumes "ci_distinct raw" "(k, v) \<in> set raw" "toLowerCase k \<noteq> ''__proto__''"
  shows "js_get (normalizeHeaders (Obj raw)) (toLowerCase k) = v"
proof -
  have d: "distinct (map fst raw)" using assms(1) by (rule ci_distinct_keys)
  have "js_get raw k = v" using d assms(2) by (simp add: js_get_def)
  moreover have "distinct (map toLowerCase (map fst raw))"
    using assms(1) by (simp add: ci_distinct_def)
  moreover have "k \<in> set (map fst raw)" using assms(2) by force
  ultimately show ?thesis using assms(3)
    by (simp add: normalizeHeaders_def not_an_object_Obj fold_assign_hit del: set_map map_map)
qed

lemma ci_distinct_lowercase_keys: "ci_distinct (lowercase_keys raw) = ci_distinct raw"
proof -
  have "map (toLowerCase \<circ> fst) (lowercase_keys raw) = map (toLowerCase \<circ> fst) raw"
    by (induction raw) (auto simp add: lowercase_keys_def toLowerCase_idem)
  then show ?thesis by (simp add: ci_distinct_def)
qed

lemma normalized_lowercase_keys:
  assumes "ci_distinct raw" "h \<noteq> ''__proto__''"
  shows "js_get (normalizeHeaders (Obj (lowercase_keys raw))) h
           = js_get (normalizeHeaders (Obj raw)) h"
proof (cases "\<exists>(k, v) \<in> set raw. toLowerCase k = h")
  case True
  then obtain k v where kv: "(k, v) \<in> set raw" and h: "h = toLowerCase k" by auto
  have np: "toLowerCase k \<noteq> ''__proto__''" using assms(2) h by simp
  have "(toLowerCase k, v) \<in> set (lowercase_keys raw)"
    using kv by (force simp add: lowercase_keys_def)
  moreover have "ci_distinct (lowercase_keys raw)"
    using assms(1) by (simp add: ci_distinct_lowercase_keys)
  moreover have "toLowerCase (toLowerCase k) \<noteq> ''__proto__''"
    using np by (simp add: toLowerCase_idem)
  ultimately have
    "js_get (normalizeHeaders (Obj (lowercase_keys raw))) (toLowerCase (toLowerCase k)) = v"
    by (simp add: normalized_present)
  then have "js_get (normalizeHeaders (Obj (lowercase_keys raw))) (toLowerCase k) = v"
    by (simp add: toLowerCase_idem)
  moreover have "js_get (normalizeHeaders (Obj raw)) (toLowerCase k) = v"
    using assms(1) kv np by (rule normalized_present)
  ultimately show ?thesis by (simp add: h)
next
  case False
  then have a: "\<forall>(k, v) \<in> set raw. toLowerCase k \<noteq> h" by auto
  then have "\<forall>(k, v) \<in> set (lowercase_keys raw). toLowerCase k \<noteq> h"
    by (auto simp add: lowercase_keys_def toLowerCase_idem)
  then show ?thesis using a by (simp add: normalized_absent)
qed

subsection \<open>Shape of the interpreter's result\<close>

lemma or_false_bool:
  "optional_includes var x n = Inr h \<Longrightarrow> js_or h (JBool False) \<in> {JBool False, JBool True}"
  by (cases x) (auto simp add: js_or_def)

lemma hit_flag_shape:
  "js_get (parseCDNCacheStatus rawHeaders cdn) ''hit'' \<in> {JUndefined, JBool False, JBool True}"
proof (cases "not_an_object rawHeaders")
  case True
  then show ?thesis by (simp add: parseCDNCacheStatus_def js_get_def)
next
  case False
  consider "cdn = ''cloudflare''" | "cdn = ''fastly''" | "cdn = ''cloudfront''" | "cdn = ''local''"
    | "cdn \<notin> {''cloudflare'', ''fastly'', ''cloudfront'', ''local''}" by auto
  then show ?thesis
  proof cases
    case 1
    with False show ?thesis by (simp add: parseCDNCacheStatus_def js_get_def Let_def)
  next
    case 2
    with False show ?thesis
      using or_false_bool [of "''xCache''" _ "''HIT''"]
      by (simp add: parseCDNCacheStatus_def js_get_def Let_def parse_error_def split: sum.splits)
  next
    case 3
    with False show ?thesis
      using or_false_bool [of "''cfCache''" _ "''Hit''"]
      by (simp add: parseCDNCacheStatus_def js_get_def Let_def parse_error_def split: sum.splits)
  next
    case 4
    with False show ?thesis by (simp add: parseCDNCacheStatus_def js_get_def Let_def)
  next
    case 5
    with False show ?thesis by (simp add: parseCDNCacheStatus_def js_get_def Let_def)
  qed
qed

subsection \<open>The interpreter, vendor by vendor\<close>

lemma header_value:
  assumes "ci_distinct raw" "(k, v) \<in> set raw" "toLowerCase k = h" "h \<noteq> ''__proto__''"
  shows "js_get (normalizeHeaders (Obj raw)) h = v"
  using normalized_present [OF assms(1,2)] assms(3,4) by simp

lemma js_or_bool: "js_or (JBool b) (JBool False) = JBool b"
  by (cases b) (simp_all add: js_or_def)

lemma js_or_undefined: "js_or JUndefined x = x"
  by (simp add: js_or_def)

lemma parse_cloudflare:
  "parseCDNCacheStatus (Obj raw) ''cloudflare'' =
     (let cfStatus = js_get (normalizeHeaders (Obj raw)) ''cf-cache-status'' in
      [(''status'', js_or cfStatus (JStr ''MISSING_HEADER'')),
       (''raw'', cfStatus),
       (''hit'', JBool (cfStatus = JStr ''HIT'')),
       (''miss'', JBool (cfStatus = JStr ''MISS'')),
       (''dynamic'', JBool (cfStatus = JStr ''DYNAMIC''))])"
  by (simp add: parseCDNCacheStatus_def not_an_object_Obj)

lemma parse_local:
  "parseCDNCacheStatus (Obj raw) ''local'' =
     (let localStatus = js_get (normalizeHeaders (Obj raw)) ''x-cache-status'' in
      [(''status'', js_or localStatus (JStr ''MISSING_HEADER'')),
       (''raw'', localStatus),
       (''hit'', JBool (localStatus = JStr ''HIT'')),
       (''miss'', JBool (localStatus = JStr ''MISS'')),
       (''bypass'', JBool (localStatus = JStr ''BYPASS''))])"
  by (simp add: parseCDNCacheStatus_def not_an_object_Obj)

lemma parse_fastly_string:
  assumes "js_get (normalizeHeaders (Obj raw)) ''x-cache'' = JStr v"
  shows "parseCDNCacheStatus (Obj raw) ''fastly'' =
     [(''status'', js_or (JStr v) (JStr ''MISSING_HEADER'')),
      (''raw'', JStr v),
      (''hit'', JBool (js_includes v ''HIT'')),
      (''miss'', JBool (js_includes v ''MISS'')),
      (''unknown'', JBool (v = []))]"
  by (simp add: parseCDNCacheStatus_def not_an_object_Obj assms Let_def js_or_bool js_or_undefined)

lemma parse_cloudfront_string:
  assumes "js_get (normalizeHeaders (Obj raw)) ''x-cache'' = JStr v"
  shows "parseCDNCacheStatus (Obj raw) ''cloudfront'' =
     [(''status'', js_or (JStr v) (JStr ''MISSING_HEADER'')),
      (''raw'', JStr v),
      (''hit'', JBool (js_includes v ''Hit'')),
      (''miss'', JBool (js_includes v ''Miss'')),
      (''error'', JBool (js_includes v ''Error''))]"
  by (simp add: parseCDNCacheStatus_def not_an_object_Obj assms Let_def js_or_bool js_or_undefined)

lemma parse_fastly_absent:
  assumes "js_get (normalizeHeaders (Obj raw)) ''x-cache'' = JUndefined"
  shows "parseCDNCacheStatus (Obj raw) ''fastly'' =
     [(''status'', JStr ''MISSING_HEADER''), (''raw'', JUndefined),
      (''hit'', JBool False), (''miss'', JBool False), (''unknown'', JBool True)]"
  by (simp add: parseCDNCacheStatus_def not_an_object_Obj assms Let_def js_or_bool js_or_undefined)

lemma parse_cloudfront_absent:
  assumes "js_get (normalizeHeaders (Obj raw)) ''x-cache'' = JUndefined"
  shows "parseCDNCacheStatus (Obj raw) ''cloudfront'' =
     [(''status'', JStr ''MISSING_HEADER''), (''raw'', JUndefined),
      (''hit'', JBool False), (''miss'', JBool False), (''error'', JBool False)]"
  by (simp add: parseCDNCacheStatus_def not_an_object_Obj assms Let_def js_or_bool js_or_undefined)

lemma cloudflare_row:
  "ci_distinct raw \<and> (k, JStr v) \<in> set raw \<and> toLowerCase k = ''cf-cache-status'' \<longrightarrow>
     js_get (parseCDNCacheStatus (Obj raw) ''cloudflare'') ''hit'' = JBool (matches Exact ''HIT'' v)
   \<and> js_get (parseCDNCacheStatus (Obj raw) ''cloudflare'') ''miss'' = JBool (matches Exact ''MISS'' v)"
proof (intro impI, elim conjE)
  assume "ci_distinct raw" "(k, JStr v) \<in> set raw" "toLowerCase k = ''cf-cache-status''"
  then have hv: "js_get (normalizeHeaders (Obj raw)) ''cf-cache-status'' = JStr v"
    by (simp add: header_value)
  show "js_get (parseCDNCacheStatus (Obj raw) ''cloudflare'') ''hit'' = JBool (matches Exact ''HIT'' v)
      \<and> js_get (parseCDNCacheStatus (Obj raw) ''cloudflare'') ''miss'' = JBool (matches Exact ''MISS'' v)"
    unfolding parse_cloudflare hv Let_def by (simp add: js_get_def)
qed

lemma local_row:
  "ci_distinct raw \<and> (k, JStr v) \<in> set raw \<and> toLowerCase k = ''x-cache-status'' \<longrightarrow>
     js_get (parseCDNCacheStatus (Obj raw) ''local'') ''hit'' = JBool (matches Exact ''HIT'' v)
   \<and> js_get (parseCDNCacheStatus (Obj raw) ''local'') ''miss'' = JBool (matches Exact ''MISS'' v)"
proof (intro impI, elim conjE)
  assume "ci_distinct raw" "(k, JStr v) \<in> set raw" "toLowerCase k = ''x-cache-status''"
  then have hv: "js_get (normalizeHeaders (Obj raw)) ''x-cache-status'' = JStr v"
    by (simp add: header_value)
  show "js_get (parseCDNCacheStatus (Obj raw) ''local'') ''hit'' = JBool (matches Exact ''HIT'' v)
      \<and> js_get (parseCDNCacheStatus (Obj raw) ''local'') ''miss'' = JBool (matches Exact ''MISS'' v)"
    unfolding parse_local hv Let_def by (simp add: js_get_def)
qed

lemma fastly_row:
  "ci_distinct raw \<and> (k, JStr v) \<in> set raw \<and> toLowerCase k = ''x-cache'' \<longrightarrow>
     js_get (parseCDNCacheStatus (Obj raw) ''fastly'') ''hit'' = JBool (matches Contains ''HIT'' v)
   \<and> js_get (parseCDNCacheStatus (Obj raw) ''fastly'') ''miss'' = JBool (matches Contains ''MISS'' v)"
proof (intro impI, elim conjE)
  assume "ci_distinct raw" "(k, JStr v) \<in> set raw" "toLowerCase k = ''x-cache''"
  then have hv: "js_get (normalizeHeaders (Obj raw)) ''x-cache'' = JStr v"
    by (simp add: header_value)
  show "js_get (parseCDNCacheStatus (Obj raw) ''fastly'') ''hit'' = JBool (matches Contains ''HIT'' v)
      \<and> js_get (parseCDNCacheStatus (Obj raw) ''fastly'') ''miss'' = JBool (matches Contains ''MISS'' v)"
    unfolding parse_fastly_string [OF hv] by (simp add: js_get_def)
qed

lemma cloudfront_row:
  "ci_distinct raw \<and> (k, JStr v) \<in> set raw \<and> toLowerCase k = ''x-cache'' \<longrightarrow>
     js_get (parseCDNCacheStatus (Obj raw) ''cloudfront'') ''hit'' = JBool (matches Contains ''Hit'' v)
   \<and> js_get (parseCDNCacheStatus (Obj raw) ''cloudfront'') ''miss'' = JBool (matches Contains ''Miss'' v)"
proof (intro impI, elim conjE)
  assume "ci_distinct raw" "(k, JStr v) \<in> set raw" "toLowerCase k = ''x-cache''"
  then have hv: "js_get (normalizeHeaders (Obj raw)) ''x-cache'' = JStr v"
    by (simp add: header_value)
  show "js_get (parseCDNCacheStatus (Obj raw) ''cloudfront'') ''hit'' = JBool (matches Contains ''Hit'' v)
      \<and> js_get (parseCDNCacheStatus (Obj raw) ''cloudfront'') ''miss'' = JBool (matches Contains ''Miss'' v)"
    unfolding parse_cloudfront_string [OF hv] by (simp add: js_get_def)
qed

lemma missing_header_cloudflare:
  "(\<forall>(k, v) \<in> set raw. toLowerCase k \<noteq> ''cf-cache-status'') \<longrightarrow>
   js_get (parseCDNCacheStatus (Obj raw) ''cloudflare'') ''status'' = JStr ''MISSING_HEADER''"
proof
  assume a: "\<forall>(k, v) \<in> set raw. toLowerCase k \<noteq> ''cf-cache-status''"
  have hv: "js_get (normalizeHeaders (Obj raw)) ''cf-cache-status'' = JUndefined"
    using a by (rule normalized_absent)
  show "js_get (parseCDNCacheStatus (Obj raw) ''cloudflare'') ''status'' = JStr ''MISSING_HEADER''" unfolding parse_cloudflare hv Let_def by (simp add: js_get_def js_or_undefined)
qed

lemma missing_header_local:
  "(\<forall>(k, v) \<in> set raw. toLowerCase k \<noteq> ''x-cache-status'') \<longrightarrow>
   js_get (parseCDNCacheStatus (Obj raw) ''local'') ''status'' = JStr ''MISSING_HEADER''"
proof
  assume a: "\<forall>(k, v) \<in> set raw. toLowerCase k \<noteq> ''x-cache-status''"
  have hv: "js_get (normalizeHeaders (Obj raw)) ''x-cache-status'' = JUndefined"
    using a by (rule normalized_absent)
  show "js_get (parseCDNCacheStatus (Obj raw) ''local'') ''status'' = JStr ''MISSING_HEADER''" unfolding parse_local hv Let_def by (simp add: js_get_def js_or_undefined)
qed

lemma missing_header_fastly:
  "(\<forall>(k, v) \<in> set raw. toLowerCase k \<noteq> ''x-cache'') \<longrightarrow>
   js_get (parseCDNCacheStatus (Obj raw) ''fastly'') ''status'' = JStr ''MISSING_HEADER''"
proof
  assume a: "\<forall>(k, v) \<in> set raw. toLowerCase k \<noteq> ''x-cache''"
  have hv: "js_get (normalizeHeaders (Obj raw)) ''x-cache'' = JUndefined"
    using a by (rule normalized_absent)
  show "js_get (parseCDNCacheStatus (Obj raw) ''fastly'') ''status'' = JStr ''MISSING_HEADER''" unfolding parse_fastly_absent [OF hv] by (simp add: js_get_def)
qed

lemma missing_header_cloudfront:
  "(\<forall>(k, v) \<in> set raw. toLowerCase k \<noteq> ''x-cache'') \<longrightarrow>
   js_get (parseCDNCacheStatus (Obj raw) ''cloudfront'') ''status'' = JStr ''MISSING_HEADER''"
proof
  assume a: "\<forall>(k, v) \<in> set raw. toLowerCase k \<noteq> ''x-cache''"
  have hv: "js_get (normalizeHeaders (Obj raw)) ''x-cache'' = JUndefined"
    using a by (rule normalized_absent)
  show "js_get (parseCDNCacheStatus (Obj raw) ''cloudfront'') ''status'' = JStr ''MISSING_HEADER''" unfolding parse_cloudfront_absent [OF hv] by (simp add: js_get_def)
qed

lemma unsupported_status:
  assumes "cdn \<notin> {''cloudflare'', ''fastly'', ''cloudfront'', ''local''}"
  shows "js_get (parseCDNCacheStatus (Obj raw) cdn) ''status'' = JStr ''UNSUPPORTED_CDN''"
  using assms by (simp add: parseCDNCacheStatus_def not_an_object_Obj js_get_def)

subsection \<open>Safety monitor\<close>

lemma filter_nonempty_iff: "length (filter P xs) > 0 \<longleftrightarrow> (\<exists>x \<in> set xs. P x)"
  by (simp add: filter_empty_conv)

text \<open>Whatever the external-domain check reports is CRITICAL; two contacts of one host are reported.\<close>

lemma external_domain_severity:
  "checkExternalDomains now logs = Some a \<Longrightarrow> severity a = ''CRITICAL''"
  by (auto simp add: checkExternalDomains_def Let_def split: if_splits)

lemma repeated_contact_reported:
  "checkExternalDomains 7200000000
     [\<lparr>log_timestamp = 7199000000, host = Some ''evil.example.com''\<rparr>,
      \<lparr>log_timestamp = 7199500000, host = Some ''evil.example.com''\<rparr>]
   = Some \<lparr>anomaly_type = ''EXTERNAL_DOMAIN_CONTACT'', severity = ''CRITICAL'',
           message = ''Requests to external domains detected'',
           anomaly_details = Domains [(''evil.example.com'', 2)]\<rparr>"
  by (simp add: checkExternalDomains_def external_domain_rows_def external_hosts_def
      allowlist_def minute_def Let_def)

text \<open>The check reports exactly when some foreign host was contacted more than once.\<close>

lemma external_domains_reported_iff:
  "(\<exists>a. checkExternalDomains now logs = Some a)
     \<longleftrightarrow> (\<exists>h. count_list (external_hosts now logs) h > 1)"
proof -
  let ?hosts = "external_hosts now logs"
  have "external_domain_rows now logs \<noteq> []
          \<longleftrightarrow> (\<exists>h \<in> set ?hosts. count_list ?hosts h > 1)"
    by (auto simp add: external_domain_rows_def Let_def filter_empty_conv)
  moreover have "(\<exists>h \<in> set ?hosts. count_list ?hosts h > 1) \<longleftrightarrow> (\<exists>h. count_list ?hosts h > 1)"
    by (metis count_notin less_nat_zero_code)
  ultimately show ?thesis
    by (simp add: checkExternalDomains_def Let_def)
qed

subsection \<open>Scenario validation\<close>

text \<open>
  Away from the names every object literal inherits, validation rejects exactly the tuples
  with a dimension outside its enumeration.
\<close>

lemma validation_outside_inherited_names:
  assumes "cdn \<notin> set object_prototype_properties" "attack \<notin> set object_prototype_properties"
  shows "(\<exists>msg. validateTestParams cdn browser attack strategy = Inl msg)
           \<longleftrightarrow> (cdn \<notin> set cdns \<or> browser \<notin> set browsers \<or> attack \<notin> set attacks
                \<or> strategy \<notin> set originStrategies)"
    and "validateTestParams cdn browser attack strategy = Inr True
           \<longleftrightarrow> (cdn \<in> set cdns \<and> browser \<in> set browsers \<and> attack \<in> set attacks
                \<and> strategy \<in> set originStrategies)"
  using assms
  by (auto simp add: validateTestParams_def validation_errors_def property_truthy_def Let_def)

text \<open>The message names every rejected dimension, one per line.\<close>

lemma validation_message:
  "validateTestParams ''akamai'' ''chromium'' ''t9'' ''proper'' =
     Inl (''Test parameter validation failed:'' @ newline
          @ ''Invalid CDN: akamai. Must be one of: cloudflare, fastly, cloudfront, local'' @ newline
          @ ''Invalid attack: t9. Must be one of: t1-path-sculpting, t2-header-manipulation, t4-scope-misconfig'')"
  by (simp add: validateTestParams_def validation_errors_def property_truthy_def cdns_def
      browsers_def attacks_def originStrategies_def object_prototype_properties_def)

section \<open>Claims\<close>

text \<open>
  C1. For every trial, the success flag is the conjunction (JavaScript \<open>&&\<close>) of the
  cache-hit flag and the victim-data-retrieved flag, and of nothing else: success is
  \<open>true\<close> if and only if the interpreter's result for the attacker response has
  \<open>hit = true\<close> and the victim marker is non-null and occurs in the attacker body.
\<close>

theorem success_is_conjunction:
  assumes "extracted_marker victimMarker"
  shows "success (classify_trial attackerHeaders cdn victimMarker attackerBody safetyIssues)
           = js_and (cache_hit (classify_trial attackerHeaders cdn victimMarker attackerBody safetyIssues))
                    (victim_data_retrieved
                       (classify_trial attackerHeaders cdn victimMarker attackerBody safetyIssues))
       \<and> (success (classify_trial attackerHeaders cdn victimMarker attackerBody safetyIssues) = JBool True
            \<longleftrightarrow> js_get (parseCDNCacheStatus attackerHeaders cdn) ''hit'' = JBool True
                 \<and> (\<exists>m. victimMarker = Some m \<and> js_includes attackerBody m))"
proof -
  let ?hit = "js_get (parseCDNCacheStatus attackerHeaders cdn) ''hit''"
  have shape: "?hit \<in> {JUndefined, JBool False, JBool True}" by (rule hit_flag_shape)
  have cvd: "containsVictimData victimMarker attackerBody = JBool True
               \<longleftrightarrow> (\<exists>m. victimMarker = Some m \<and> js_includes attackerBody m)"
    using assms by (auto simp add: containsVictimData_def extracted_marker_def split: option.splits)
  have "js_and ?hit (containsVictimData victimMarker attackerBody) = JBool True
          \<longleftrightarrow> ?hit = JBool True \<and> containsVictimData victimMarker attackerBody = JBool True"
    using shape by (auto simp add: js_and_def)
  with cvd show ?thesis
    by (simp add: classify_trial_def Let_def attackSuccess_def)
qed

theorem success_is_conjunction_witness:
  "extracted_marker (Some ''marker-1'')
   \<and> success (classify_trial (Obj [(''x-cache-status'', JStr ''HIT'')]) ''local''
                (Some ''marker-1'') ''<p>marker-1</p>'' []) = JBool True"
proof -
  have m: "extracted_marker (Some ''marker-1'')" by (simp add: extracted_marker_def)
  have hit: "js_get (parseCDNCacheStatus (Obj [(''x-cache-status'', JStr ''HIT'')]) ''local'') ''hit''
               = JBool True"
    by (simp add: parseCDNCacheStatus_def normalizeHeaders_def not_an_object_def js_assign_def
        toLowerCase_def lower_char_def js_get_def Let_def)
  have inc: "\<exists>m. Some ''marker-1'' = Some m \<and> js_includes ''<p>marker-1</p>'' m" by simp
  from success_is_conjunction [OF m] hit inc m show ?thesis by blast
qed


text \<open>
  C2, as stated: victim-data-retrieved is the boolean \<open>false\<close> whenever the victim marker
  is null. With a null marker the operator \<open>&&\<close> returns its left operand, \<open>null\<close>.
\<close>

theorem marker_match_null_counterexample:
  "victim_data_retrieved
     (classify_trial (Obj [(''x-cache-status'', JStr ''HIT'')]) ''local'' None ''<p>marker-1</p>'' [])
   \<noteq> JBool False"
  by (simp add: classify_trial_def containsVictimData_def Let_def)


text \<open>
  C2, amended. Victim-data-retrieved is \<open>null\<close> when the victim marker is null; for an
  extracted (non-null) marker it is a boolean, \<open>true\<close> exactly when the attacker body
  contains the marker string.
\<close>

theorem marker_match_value:
  assumes "extracted_marker victimMarker"
  shows "victim_data_retrieved
           (classify_trial attackerHeaders cdn victimMarker attackerBody safetyIssues)
         = (case victimMarker of
              None \<Rightarrow> JNull
            | Some m \<Rightarrow> JBool (js_includes attackerBody m))"
  using assms
  by (simp add: classify_trial_def containsVictimData_def extracted_marker_def Let_def
      split: option.splits)

theorem marker_match_value_witness:
  "extracted_marker None \<and> extracted_marker (Some ''marker-1'')
   \<and> victim_data_retrieved
       (classify_trial (Obj [(''x-cache-status'', JStr ''HIT'')]) ''local'' None ''<p>marker-1</p>'' [])
     = JNull
   \<and> victim_data_retrieved
       (classify_trial (Obj [(''x-cache-status'', JStr ''HIT'')]) ''local'' (Some ''marker-1'')
          ''<p>marker-1</p>'' [])
     = JBool True"
proof -
  have n: "extracted_marker None" by (simp add: extracted_marker_def)
  have m: "extracted_marker (Some ''marker-1'')" by (simp add: extracted_marker_def)
  have inc: "js_includes ''<p>marker-1</p>'' ''marker-1''" by simp
  from marker_match_value [OF n] marker_match_value [OF m] inc n m show ?thesis by simp
qed


text \<open>
  C3, as stated: a malformed headers argument yields the verdict \<open>PARSE_ERROR\<close>. For
  \<open>null\<close> the guard answers before the \<open>try\<close> block is entered.
\<close>

theorem malformed_headers_counterexample:
  "js_get (parseCDNCacheStatus (Prim JNull) ''cloudflare'') ''status'' \<noteq> JStr ''PARSE_ERROR''"
  by (simp add: parseCDNCacheStatus_def not_an_object_def js_get_def)


text \<open>
  C3, amended. For every vendor, a headers argument that is null, undefined or not an
  object yields the status \<open>INVALID_HEADERS\<close>; the result has neither \<open>hit = true\<close> nor
  \<open>miss = true\<close>.
\<close>

theorem malformed_headers_verdict:
  "js_get (parseCDNCacheStatus (Prim p) cdn) ''status'' = JStr ''INVALID_HEADERS''
   \<and> js_get (parseCDNCacheStatus (Prim p) cdn) ''hit'' \<noteq> JBool True
   \<and> js_get (parseCDNCacheStatus (Prim p) cdn) ''miss'' \<noteq> JBool True"
  by (simp add: parseCDNCacheStatus_def not_an_object_Prim js_get_def)


text \<open>
  C4, as stated: a vendor outside the table yields the status \<open>UNSUPPORTED_VENDOR\<close>. The
  status the default branch writes is \<open>UNSUPPORTED_CDN\<close>.
\<close>

theorem unsupported_vendor_counterexample:
  "js_get (parseCDNCacheStatus (Obj [(''x-cache'', JStr ''HIT'')]) ''akamai'') ''status''
     \<noteq> JStr ''UNSUPPORTED_VENDOR''"
  by (simp add: parseCDNCacheStatus_def not_an_object_def js_get_def)


text \<open>
  C4, amended. For each row of the rule table and every header object without
  case-insensitive duplicate keys, a string value under the vendor's signal header sets
  \<open>hit\<close> to whether the value matches the HIT string (exactly, or by containment) and
  \<open>miss\<close> to whether it matches the MISS string, so the canonical HIT string gives
  \<open>hit = true\<close> and the canonical MISS string gives \<open>miss = true\<close>; a header object
  without the signal header yields the status \<open>MISSING_HEADER\<close>; and for every vendor
  outside the table the status is \<open>UNSUPPORTED_CDN\<close>, whatever the header object holds.
\<close>

theorem interpreter_rule_table:
  "(\<forall>(vendor, header, rule, hit, miss) \<in> set spec_rule_table.
      (\<forall>raw k v. ci_distinct raw \<and> (k, JStr v) \<in> set raw \<and> toLowerCase k = header \<longrightarrow>
           js_get (parseCDNCacheStatus (Obj raw) vendor) ''hit'' = JBool (matches rule hit v)
         \<and> js_get (parseCDNCacheStatus (Obj raw) vendor) ''miss'' = JBool (matches rule miss v))
    \<and> (\<forall>raw. (\<forall>(k, v) \<in> set raw. toLowerCase k \<noteq> header) \<longrightarrow>
           js_get (parseCDNCacheStatus (Obj raw) vendor) ''status'' = JStr ''MISSING_HEADER''))
   \<and> (\<forall>cdn raw. cdn \<notin> fst ` set spec_rule_table \<longrightarrow>
         js_get (parseCDNCacheStatus (Obj raw) cdn) ''status'' = JStr ''UNSUPPORTED_CDN'')"
proof -
  have cf: "(\<forall>raw k v. ci_distinct raw \<and> (k, JStr v) \<in> set raw \<and> toLowerCase k = ''cf-cache-status'' \<longrightarrow>
           js_get (parseCDNCacheStatus (Obj raw) ''cloudflare'') ''hit'' = JBool (matches Exact ''HIT'' v)
         \<and> js_get (parseCDNCacheStatus (Obj raw) ''cloudflare'') ''miss'' = JBool (matches Exact ''MISS'' v))
    \<and> (\<forall>raw. (\<forall>(k, v) \<in> set raw. toLowerCase k \<noteq> ''cf-cache-status'') \<longrightarrow>
           js_get (parseCDNCacheStatus (Obj raw) ''cloudflare'') ''status'' = JStr ''MISSING_HEADER'')"
    using cloudflare_row missing_header_cloudflare by blast
  have fa: "(\<forall>raw k v. ci_distinct raw \<and> (k, JStr v) \<in> set raw \<and> toLowerCase k = ''x-cache'' \<longrightarrow>
           js_get (parseCDNCacheStatus (Obj raw) ''fastly'') ''hit'' = JBool (matches Contains ''HIT'' v)
         \<and> js_get (parseCDNCacheStatus (Obj raw) ''fastly'') ''miss'' = JBool (matches Contains ''MISS'' v))
    \<and> (\<forall>raw. (\<forall>(k, v) \<in> set raw. toLowerCase k \<noteq> ''x-cache'') \<longrightarrow>
           js_get (parseCDNCacheStatus (Obj raw) ''fastly'') ''status'' = JStr ''MISSING_HEADER'')"
    using fastly_row missing_header_fastly by blast
  have cr: "(\<forall>raw k v. ci_distinct raw \<and> (k, JStr v) \<in> set raw \<and> toLowerCase k = ''x-cache'' \<longrightarrow>
           js_get (parseCDNCacheStatus (Obj raw) ''cloudfront'') ''hit'' = JBool (matches Contains ''Hit'' v)
         \<and> js_get (parseCDNCacheStatus (Obj raw) ''cloudfront'') ''miss'' = JBool (matches Contains ''Miss'' v))
    \<and> (\<forall>raw. (\<forall>(k, v) \<in> set raw. toLowerCase k \<noteq> ''x-cache'') \<longrightarrow>
           js_get (parseCDNCacheStatus (Obj raw) ''cloudfront'') ''status'' = JStr ''MISSING_HEADER'')"
    using cloudfront_row missing_header_cloudfront by blast
  have lo: "(\<forall>raw k v. ci_distinct raw \<and> (k, JStr v) \<in> set raw \<and> toLowerCase k = ''x-cache-status'' \<longrightarrow>
           js_get (parseCDNCacheStatus (Obj raw) ''local'') ''hit'' = JBool (matches Exact ''HIT'' v)
         \<and> js_get (parseCDNCacheStatus (Obj raw) ''local'') ''miss'' = JBool (matches Exact ''MISS'' v))
    \<and> (\<forall>raw. (\<forall>(k, v) \<in> set raw. toLowerCase k \<noteq> ''x-cache-status'') \<longrightarrow>
           js_get (parseCDNCacheStatus (Obj raw) ''local'') ''status'' = JStr ''MISSING_HEADER'')"
    using local_row missing_header_local by blast
  have un: "\<forall>cdn raw. cdn \<notin> fst ` set spec_rule_table \<longrightarrow>
         js_get (parseCDNCacheStatus (Obj raw) cdn) ''status'' = JStr ''UNSUPPORTED_CDN''"
    by (simp add: spec_rule_table_def unsupported_status)
  have rows: "\<forall>(vendor, header, rule, hit, miss) \<in> set spec_rule_table.
      (\<forall>raw k v. ci_distinct raw \<and> (k, JStr v) \<in> set raw \<and> toLowerCase k = header \<longrightarrow>
           js_get (parseCDNCacheStatus (Obj raw) vendor) ''hit'' = JBool (matches rule hit v)
         \<and> js_get (parseCDNCacheStatus (Obj raw) vendor) ''miss'' = JBool (matches rule miss v))
    \<and> (\<forall>raw. (\<forall>(k, v) \<in> set raw. toLowerCase k \<noteq> header) \<longrightarrow>
           js_get (parseCDNCacheStatus (Obj raw) vendor) ''status'' = JStr ''MISSING_HEADER'')"
    unfolding spec_rule_table_def list.set ball_simps prod.case
    by (rule conjI [OF cf conjI [OF fa conjI [OF cr conjI [OF lo TrueI]]]])
  from rows un show ?thesis by (rule conjI)
qed

theorem interpreter_rule_table_witness:
  "(''cloudfront'', ''x-cache'', Contains, ''Hit'', ''Miss'') \<in> set spec_rule_table
   \<and> ci_distinct [(''X-Cache'', JStr ''Hit from cloudfront'')]
   \<and> js_get (parseCDNCacheStatus (Obj [(''X-Cache'', JStr ''Hit from cloudfront'')]) ''cloudfront'')
              ''hit'' = JBool True
   \<and> js_get (parseCDNCacheStatus (Obj [(''Age'', JStr ''3'')]) ''cloudfront'') ''status''
       = JStr ''MISSING_HEADER''
   \<and> ''akamai'' \<notin> fst ` set spec_rule_table
   \<and> js_get (parseCDNCacheStatus (Obj [(''x-cache'', JStr ''HIT'')]) ''akamai'') ''status''
       = JStr ''UNSUPPORTED_CDN''"
proof -
  have mem: "(''cloudfront'', ''x-cache'', Contains, ''Hit'', ''Miss'') \<in> set spec_rule_table"
    by (simp add: spec_rule_table_def)
  have d: "ci_distinct [(''X-Cache'', JStr ''Hit from cloudfront'')]"
    by (simp add: ci_distinct_def)
  have k: "toLowerCase ''X-Cache'' = ''x-cache''"
    by (simp add: toLowerCase_def lower_char_def)
  have m: "matches Contains ''Hit'' ''Hit from cloudfront''" by simp
  have absent: "\<forall>(k, v) \<in> set [(''Age'', JStr ''3'')]. toLowerCase k \<noteq> ''x-cache''"
    by (simp add: toLowerCase_def lower_char_def)
  have un: "''akamai'' \<notin> fst ` set spec_rule_table"
    by (simp add: spec_rule_table_def)
  note row = bspec [OF conjunct1 [OF interpreter_rule_table] mem, unfolded prod.case]
  have hit: "js_get (parseCDNCacheStatus (Obj [(''X-Cache'', JStr ''Hit from cloudfront'')])
                       ''cloudfront'') ''hit'' = JBool True"
    using conjunct1 [OF row, rule_format, of "[(''X-Cache'', JStr ''Hit from cloudfront'')]"
                       "''X-Cache''" "''Hit from cloudfront''"] d k m
    by simp
  have missing: "js_get (parseCDNCacheStatus (Obj [(''Age'', JStr ''3'')]) ''cloudfront'') ''status''
                   = JStr ''MISSING_HEADER''"
    using conjunct2 [OF row, rule_format, of "[(''Age'', JStr ''3'')]"] absent by blast
  have unsupported: "js_get (parseCDNCacheStatus (Obj [(''x-cache'', JStr ''HIT'')]) ''akamai'')
                       ''status'' = JStr ''UNSUPPORTED_CDN''"
    using conjunct2 [OF interpreter_rule_table, rule_format, OF un] by blast
  from mem d hit missing un unsupported show ?thesis by blast
qed

text \<open>
  C5. The interpreter does not see the case of header keys: for every vendor and every
  header object without case-insensitive duplicate keys, interpreting the object gives the
  same result as interpreting it with all keys lowercased.
\<close>

theorem interpreter_key_case_insensitive:
  assumes "ci_distinct raw"
  shows "parseCDNCacheStatus (Obj raw) cdn = parseCDNCacheStatus (Obj (lowercase_keys raw)) cdn"
proof -
  have "js_get (normalizeHeaders (Obj (lowercase_keys raw))) ''cf-cache-status''
          = js_get (normalizeHeaders (Obj raw)) ''cf-cache-status''"
    and "js_get (normalizeHeaders (Obj (lowercase_keys raw))) ''x-cache''
          = js_get (normalizeHeaders (Obj raw)) ''x-cache''"
    and "js_get (normalizeHeaders (Obj (lowercase_keys raw))) ''x-cache-status''
          = js_get (normalizeHeaders (Obj raw)) ''x-cache-status''"
    using assms by (simp_all add: normalized_lowercase_keys)
  then show ?thesis
    by (simp add: parseCDNCacheStatus_def not_an_object_Obj Let_def)
qed

theorem interpreter_key_case_insensitive_witness:
  "ci_distinct [(''X-Cache-Status'', JStr ''HIT''), (''Age'', JStr ''12'')]
   \<and> parseCDNCacheStatus (Obj [(''X-Cache-Status'', JStr ''HIT''), (''Age'', JStr ''12'')]) ''local''
       = parseCDNCacheStatus
           (Obj (lowercase_keys [(''X-Cache-Status'', JStr ''HIT''), (''Age'', JStr ''12'')]))
           ''local''"
proof -
  have h: "ci_distinct [(''X-Cache-Status'', JStr ''HIT''), (''Age'', JStr ''12'')]"
    by (simp add: ci_distinct_def toLowerCase_def lower_char_def)
  from h interpreter_key_case_insensitive [OF h, of "''local''"] show ?thesis
    by (rule conjI)
qed

text \<open>
  C6. Under the strategy \<open>proper\<close> a successful classification is flagged, not suppressed:
  the closing assertions of the trial fail with the message for it whenever the strategy
  is \<open>proper\<close> and success is \<open>true\<close>; and the monitor's unexpected-success check
  returns an anomaly, of severity \<open>MEDIUM\<close>, if and only if some trial of the trailing
  hour (timestamp later than one hour before the check) has strategy \<open>proper\<close> and
  success \<open>true\<close>, and returns nothing otherwise.
\<close>

theorem proper_success_is_flagged:
  "(strategy = ''proper'' \<and> attack_success = JBool True \<longrightarrow>
      trial_assertions strategy attack_success cacheStatus
        = Failed ''Attack should not succeed with proper security headers'')
   \<and> ((\<exists>a. checkUnexpectedSuccesses now experiments = Some a \<and> severity a = ''MEDIUM'')
        \<longleftrightarrow> (\<exists>r \<in> set experiments. exp_timestamp r > now - hour
                \<and> origin_header_strategy r = ''proper'' \<and> outcome_success r = Some True))
   \<and> (checkUnexpectedSuccesses now experiments = None
        \<longleftrightarrow> \<not> (\<exists>r \<in> set experiments. exp_timestamp r > now - hour
                \<and> origin_header_strategy r = ''proper'' \<and> outcome_success r = Some True))"
proof -
  have a: "length (filter (unexpected_success_row now) experiments) > 0
           \<longleftrightarrow> (\<exists>r \<in> set experiments. exp_timestamp r > now - hour
                \<and> origin_header_strategy r = ''proper'' \<and> outcome_success r = Some True)"
    unfolding filter_nonempty_iff by (simp add: unexpected_success_row_def)
  show ?thesis
    unfolding a [symmetric]
    by (simp add: trial_assertions_def checkUnexpectedSuccesses_def Let_def)
qed

theorem proper_success_is_flagged_witness:
  "trial_assertions ''proper'' (JBool True) [(''status'', JStr ''HIT'')]
     = Failed ''Attack should not succeed with proper security headers''
   \<and> (\<exists>a. checkUnexpectedSuccesses 7200000000
            [\<lparr>exp_timestamp = 7100000000, origin_header_strategy = ''proper'',
              outcome_success = Some True\<rparr>] = Some a \<and> severity a = ''MEDIUM'')
   \<and> checkUnexpectedSuccesses 7200000000
        [\<lparr>exp_timestamp = 7100000000, origin_header_strategy = ''misconfigured'',
          outcome_success = Some True\<rparr>,
         \<lparr>exp_timestamp = 7100000000, origin_header_strategy = ''proper'',
          outcome_success = None\<rparr>,
         \<lparr>exp_timestamp = 3600000000, origin_header_strategy = ''proper'',
          outcome_success = Some True\<rparr>] = None"
proof -
  let ?r = "\<lparr>exp_timestamp = 7100000000, origin_header_strategy = ''proper'',
              outcome_success = Some True\<rparr>"
  let ?rs = "[\<lparr>exp_timestamp = 7100000000, origin_header_strategy = ''misconfigured'',
          outcome_success = Some True\<rparr>,
         \<lparr>exp_timestamp = 7100000000, origin_header_strategy = ''proper'',
          outcome_success = None\<rparr>,
         \<lparr>exp_timestamp = 3600000000, origin_header_strategy = ''proper'',
          outcome_success = Some True\<rparr>]"
  have e: "\<exists>r \<in> set [?r]. exp_timestamp r > 7200000000 - hour
                \<and> origin_header_strategy r = ''proper'' \<and> outcome_success r = Some True"
    by (simp add: hour_def minute_def)
  have n: "\<not> (\<exists>r \<in> set ?rs. exp_timestamp r > 7200000000 - hour
                \<and> origin_header_strategy r = ''proper'' \<and> outcome_success r = Some True)"
    by (simp add: hour_def minute_def)
  note T = proper_success_is_flagged [of "''proper''" "JBool True" "[(''status'', JStr ''HIT'')]"]
  have 1: "trial_assertions ''proper'' (JBool True) [(''status'', JStr ''HIT'')]
     = Failed ''Attack should not succeed with proper security headers''"
    using conjunct1 [OF T] by simp
  have 2: "\<exists>a. checkUnexpectedSuccesses 7200000000 [?r] = Some a \<and> severity a = ''MEDIUM''"
    using conjunct1 [OF conjunct2 [OF proper_success_is_flagged [of _ _ _ 7200000000 "[?r]"]]] e
    by blast
  have 3: "checkUnexpectedSuccesses 7200000000 ?rs = None"
    using conjunct2 [OF conjunct2 [OF proper_success_is_flagged [of _ _ _ 7200000000 ?rs]]] n
    by blast
  from 1 2 3 show ?thesis by blast
qed


text \<open>
  C7 says that a single contacted host outside the allowlist in the trailing window is
  enough for the external-domain check to report. The query keeps only hosts with
  \<open>COUNT(*) > 1\<close>: one request to a foreign host within the window is not reported.
\<close>

theorem single_external_contact_not_reported:
  "checkExternalDomains 7200000000
     [\<lparr>log_timestamp = 7199000000, host = Some ''evil.example.com''\<rparr>] = None"
  by (simp add: checkExternalDomains_def external_domain_rows_def external_hosts_def
      allowlist_def minute_def Let_def)


text \<open>
  C8 says that validation raises if and only if a dimension lies outside its enumeration.
  The vendor \<open>constructor\<close> is not one of the four vendors, yet the read
  \<open>TEST_CONFIG.cdns[cdn]\<close> finds the inherited property and validation returns \<open>true\<close>.
\<close>

theorem inherited_property_passes_validation:
  "''constructor'' \<notin> set cdns
   \<and> validateTestParams ''constructor'' ''chromium'' ''t1-path-sculpting'' ''proper'' = Inr True"
  by (simp add: validateTestParams_def validation_errors_def property_truthy_def cdns_def
      browsers_def attacks_def originStrategies_def object_prototype_properties_def)


text \<open>
  C9. For every vendor, a headers argument that is null, undefined or otherwise not an
  object makes the interpreter return exactly
  \<open>{status: 'INVALID_HEADERS', raw: null, error: 'Headers not provided'}\<close>; the model has
  no failure branch on this path, so nothing is thrown. \<open>normalizeHeaders\<close> returns the
  empty object for every such argument.
\<close>

theorem invalid_headers_result:
  "parseCDNCacheStatus (Prim p) cdn =
     [(''status'', JStr ''INVALID_HEADERS''), (''raw'', JNull),
      (''error'', JStr ''Headers not provided'')]
   \<and> normalizeHeaders (Prim p) = []"
  by (simp add: parseCDNCacheStatus_def normalizeHeaders_def not_an_object_Prim)

text \<open>
  C10. The p-value lookup returns one of exactly the five values 0.001, 0.01, 0.05, 0.10
  and 0.20 (each of them is returned for some input); for every degrees-of-freedom value
  other than 1 it returns 0.20 whatever the statistic; and for one degree of freedom the
  returned value does not increase when the statistic increases.
\<close>

theorem p_value_lookup:
  "{p. \<exists>chiSquare df. calculatePValue chiSquare df = p} = {0.001, 0.01, 0.05, 0.10, 0.20}
   \<and> (df \<noteq> Fin 1 \<longrightarrow> calculatePValue chiSquare df = 0.20)
   \<and> (js_le x y \<longrightarrow> calculatePValue y (Fin 1) \<le> calculatePValue x (Fin 1))"
proof (intro conjI impI)
  have five: "calculatePValue c d \<in> {0.001, 0.01, 0.05, 0.10, 0.20}" for c d
    by (simp add: calculatePValue_def)
  have "calculatePValue (Fin 11) (Fin 1) = 0.001"
    and "calculatePValue (Fin 7) (Fin 1) = 0.01"
    and "calculatePValue (Fin 4) (Fin 1) = 0.05"
    and "calculatePValue (Fin 3) (Fin 1) = 0.10"
    and "calculatePValue (Fin 0) (Fin 1) = 0.20"
    by (simp_all add: calculatePValue_def)
  then have attained: "{0.001, 0.01, 0.05, 0.10, 0.20} \<subseteq> {p. \<exists>c d. calculatePValue c d = p}"
    by blast
  from five have "{p. \<exists>c d. calculatePValue c d = p} \<subseteq> {0.001, 0.01, 0.05, 0.10, 0.20}"
    by blast
  then show "{p. \<exists>c d. calculatePValue c d = p} = {0.001, 0.01, 0.05, 0.10, 0.20}"
    using attained by (rule equalityI)
  show "calculatePValue chiSquare df = 0.20" if "df \<noteq> Fin 1"
    using that by (simp add: calculatePValue_def)
  show "calculatePValue y (Fin 1) \<le> calculatePValue x (Fin 1)" if "js_le x y"
    using that by (cases x; cases y) (simp_all add: calculatePValue_def)
qed

theorem p_value_lookup_witness:
  "Fin 2 \<noteq> Fin 1 \<and> calculatePValue (Fin 50) (Fin 2) = 0.20
   \<and> js_le (Fin 3) (Fin 7) \<and> calculatePValue (Fin 7) (Fin 1) \<le> calculatePValue (Fin 3) (Fin 1)"
proof -
  have d: "Fin 2 \<noteq> Fin 1" by simp
  have l: "js_le (Fin 3) (Fin 7)" by simp
  note T = p_value_lookup [of "Fin 2" "Fin 50" "Fin 3" "Fin 7"]
  from conjunct1 [OF conjunct2 [OF T]] conjunct2 [OF conjunct2 [OF T]] d l
  show ?thesis by blast
qed

end
